theory Spec2Isabelle
  imports Complex_Main
begin

section \<open>Python values and exceptions\<close>

text \<open>
  The module \<^verbatim>\<open>kgexpr/data/__init__.py\<close> is embedded function by function. Every
  \<^verbatim>\<open>raise\<close>, failed \<^verbatim>\<open>assert\<close> and failing library call of the source is a value
  \<open>Inl e\<close> of the result type \<open>py_error + 'a\<close>; a normal return is \<open>Inr v\<close>.
  \<open>RuntimeError\<close> carries the literal part of the message the source builds, so that
  the two \<^verbatim>\<open>raise RuntimeError\<close> sites of one function stay apart.
\<close>

datatype py_error =
    RuntimeError string
  | AssertionError
  | ValueError
  | KeyError
  | NameError
  | OverflowError
  | ZeroDivisionError
  | StopIteration
  | MemoryError

fun class_name :: "py_error \<Rightarrow> string" where
  "class_name (RuntimeError _) = ''RuntimeError''"
| "class_name AssertionError = ''AssertionError''"
| "class_name ValueError = ''ValueError''"
| "class_name KeyError = ''KeyError''"
| "class_name NameError = ''NameError''"
| "class_name OverflowError = ''OverflowError''"
| "class_name ZeroDivisionError = ''ZeroDivisionError''"
| "class_name StopIteration = ''StopIteration''"
| "class_name MemoryError = ''MemoryError''"

definition py_bind :: "py_error + 'a \<Rightarrow> ('a \<Rightarrow> py_error + 'b) \<Rightarrow> py_error + 'b" where
  "py_bind m f = (case m of Inl e \<Rightarrow> Inl e | Inr v \<Rightarrow> f v)"

text \<open>
  Modelled from the spec: \<^verbatim>\<open>kgexpr/data/constants.py\<close> is not among the sources. The
  enumeration \<^verbatim>\<open>constants.TripleElement\<close> has the members the source compares with
  (\<^verbatim>\<open>HEAD\<close>, \<^verbatim>\<open>RELATION\<close>, \<^verbatim>\<open>TAIL\<close>, lines 168 to 176), which are the spec's
  target fields {head, relation, tail}; \<^verbatim>\<open>constants.DatasetType\<close> has the members
  of lines 99 to 103; the keys \<^verbatim>\<open>HEAD_KEY\<close>, \<^verbatim>\<open>RELATION_KEY\<close>, \<^verbatim>\<open>TAIL_KEY\<close> are the
  tags of lines 298, 307 and 316.
\<close>

datatype TripleElement = HEAD | RELATION | TAIL

datatype DatasetType = TRAINING | VALIDATION | TESTING

datatype prediction_key = HEAD_KEY | RELATION_KEY | TAIL_KEY

text \<open>
  An argument that the source inspects at run time (\<^verbatim>\<open>arange_target\<close>,
  \<^verbatim>\<open>dataset_type\<close>) can be any Python object: a member of one of the two
  enumerations, or something else.
\<close>

datatype py_value =
    Member TripleElement
  | Kind DatasetType
  | Py_int int
  | Py_str string
  | Py_none

text \<open>
  Modelled from the spec: \<^verbatim>\<open>constants.TripleElement.has_value\<close> is not among the
  sources. The spec's section 4.6 accepts a target field exactly when it is one of
  {head, relation, tail}.
\<close>

definition TripleElement_has_value :: "py_value \<Rightarrow> bool" where
  "TripleElement_has_value v = (case v of Member _ \<Rightarrow> True | _ \<Rightarrow> False)"

section \<open>The numpy calls of the module\<close>

text \<open>
  A one-dimensional \<^verbatim>\<open>int64\<close> array is the list of its elements. \<^verbatim>\<open>np.array([x],
  dtype=np.int64)\<close> raises OverflowError for a Python integer outside the signed 64-bit
  range.

  numpy cannot build every array. The size of an array in bytes has to fit a signed
  64-bit integer, so an \<^verbatim>\<open>int64\<close> array has fewer than \<open>2 ^ 60\<close> elements, whatever the
  machine (ValueError otherwise); and the machine has to have the memory (MemoryError
  otherwise). The second limit depends on the machine: it is the parameter \<open>mem\<close>, the
  largest number of \<^verbatim>\<open>int64\<close> elements that one allocation can hold.

  \<^verbatim>\<open>np.arange(n, dtype=np.int64)\<close> is empty for \<open>n \<le> 0\<close>. \<^verbatim>\<open>np.tile(a, n)\<close> repeats \<open>a\<close>
  \<open>n\<close> times; it raises ValueError for a negative count and OverflowError for a count
  that does not fit a signed 64-bit integer.
\<close>

definition in_int64 :: "int \<Rightarrow> bool" where
  "in_int64 x = (- (2 ^ 63) \<le> x \<and> x < 2 ^ 63)"

definition np_array1 :: "int \<Rightarrow> py_error + int list" where
  "np_array1 x = (if in_int64 x then Inr [x] else Inl OverflowError)"

definition np_allocate :: "nat \<Rightarrow> int \<Rightarrow> int list \<Rightarrow> py_error + int list" where
  \<comment> \<open>the allocation of an \<^verbatim>\<open>int64\<close> array of \<open>len\<close> elements, filled with \<open>xs\<close>\<close>
  "np_allocate mem len xs =
     (if 2 ^ 60 \<le> len then Inl ValueError
      else if int mem < len then Inl MemoryError
      else Inr xs)"

definition np_arange :: "nat \<Rightarrow> int \<Rightarrow> py_error + int list" where
  "np_arange mem n = np_allocate mem (max 0 n) (map int [0..<nat n])"

definition np_tile :: "nat \<Rightarrow> int list \<Rightarrow> int \<Rightarrow> py_error + int list" where
  "np_tile mem a n =
     (if n < 0 then Inl ValueError
      else if 2 ^ 63 \<le> n then Inl OverflowError
      else np_allocate mem (int (length a) * n) (concat (replicate (nat n) a)))"

definition tile_scalar :: "nat \<Rightarrow> int \<Rightarrow> int \<Rightarrow> py_error + int list" where
  \<comment> \<open>\<^verbatim>\<open>np.tile(np.array([x], dtype=np.int64), n)\<close>: the inner call is evaluated first.\<close>
  "tile_scalar mem x n = py_bind (np_array1 x) (\<lambda>a. np_tile mem a n)"

section \<open>expand\_triple\_to\_sets (lines 157 to 185)\<close>

text \<open>
  The validation of line 162 calls \<^verbatim>\<open>constants.TripleElement.has_value\<close>, which is
  not among the sources: it is the parameter \<open>has_value\<close>. The comparisons of lines
  168, 172 and 176 are with the members of the enumeration. The three arrays of a
  branch are built in the order of its three lines.
\<close>

definition wrong_value_msg :: string where
  "wrong_value_msg = ''arange_target is set to wrong value. It has to be one of TripleElement but it's ''"

definition miracle_msg :: string where
  "miracle_msg = ''Miracle happened. arange_target passed the validation and reached impossible branch.''"

definition expand_triple_to_sets ::
  "nat \<Rightarrow> (py_value \<Rightarrow> bool) \<Rightarrow> int \<times> int \<times> int \<Rightarrow> int \<Rightarrow> py_value
    \<Rightarrow> py_error + (int list \<times> int list \<times> int list)" where
  "expand_triple_to_sets mem has_value triple num_expands arange_target =
     (if \<not> has_value arange_target then Inl (RuntimeError wrong_value_msg)
      else case triple of (h, r, t) \<Rightarrow>
        if arange_target = Member HEAD then
          py_bind (np_arange mem num_expands) (\<lambda>h'.
          py_bind (tile_scalar mem r num_expands) (\<lambda>r'.
          py_bind (tile_scalar mem t num_expands) (\<lambda>t'.
          Inr (h', r', t'))))
        else if arange_target = Member RELATION then
          py_bind (tile_scalar mem h num_expands) (\<lambda>h'.
          py_bind (np_arange mem num_expands) (\<lambda>r'.
          py_bind (tile_scalar mem t num_expands) (\<lambda>t'.
          Inr (h', r', t'))))
        else if arange_target = Member TAIL then
          py_bind (tile_scalar mem h num_expands) (\<lambda>h'.
          py_bind (tile_scalar mem r num_expands) (\<lambda>r'.
          py_bind (np_arange mem num_expands) (\<lambda>t'.
          Inr (h', r', t'))))
        else Inl (RuntimeError miracle_msg))"

section \<open>TripleIndexBatchSampler (lines 191 to 223)\<close>

text \<open>
  \<^verbatim>\<open>__init__\<close> stores the dataset and the batch size; \<^verbatim>\<open>__iter__\<close> adds the cursor
  and \<^verbatim>\<open>max_item = len(self.dataset)\<close>. The object after \<^verbatim>\<open>__iter__\<close> is the record
  extended by these two attributes, so \<^verbatim>\<open>__next__\<close> is defined on it only.
\<close>

record 'a TripleIndexBatchSampler =
  dataset :: "'a list"
  batch_size :: int

record 'a sampler_iter = "'a TripleIndexBatchSampler" +
  cursor :: int
  max_item :: int

definition sampler_init :: "'a list \<Rightarrow> int \<Rightarrow> 'a TripleIndexBatchSampler" where
  "sampler_init ds bs = \<lparr>dataset = ds, batch_size = bs\<rparr>"

definition sampler_iter :: "'a TripleIndexBatchSampler \<Rightarrow> 'a sampler_iter" where
  "sampler_iter s =
     \<lparr>dataset = dataset s, batch_size = batch_size s,
      cursor = 0, max_item = int (length (dataset s))\<rparr>"

definition sampler_len :: "'a TripleIndexBatchSampler \<Rightarrow> int" where
  "sampler_len s = (int (length (dataset s)) + batch_size s - 1) div batch_size s"

text \<open>
  \<^verbatim>\<open>np.empty((n), dtype=np.int64)\<close> raises ValueError for a negative \<open>n\<close>; the loop
  \<^verbatim>\<open>for i in range(n): batch[i] = self.cursor + i\<close> fills all \<open>n\<close> cells. Every value
  stored is below \<open>max_item\<close>, a list length, so the \<^verbatim>\<open>int64\<close> cells never overflow.
\<close>

definition fill_batch :: "int \<Rightarrow> int \<Rightarrow> int list" where
  "fill_batch c n = map (\<lambda>i. c + int i) [0..<nat n]"

definition sampler_next :: "'a sampler_iter \<Rightarrow> py_error + (int list \<times> 'a sampler_iter)" where
  "sampler_next s =
     (if cursor s + batch_size s < max_item s then
        (if batch_size s < 0 then Inl ValueError
         else Inr (fill_batch (cursor s) (batch_size s),
                   s\<lparr>cursor := cursor s + batch_size s\<rparr>))
      else
        (let bs = max_item s - cursor s in
         if bs \<le> 0 then Inl StopIteration
         else Inr (fill_batch (cursor s) bs, s\<lparr>cursor := cursor s + bs\<rparr>)))"

text \<open>
  A \<^verbatim>\<open>for\<close> loop over the sampler calls \<^verbatim>\<open>__next__\<close> until StopIteration and collects
  the chunks; any other exception leaves the loop. With a batch size of 0 the cursor
  never moves and the loop does not end, so the result is an option.
\<close>

partial_function (option) drain :: "'a sampler_iter \<Rightarrow> (py_error + int list list) option" where
  "drain s =
     (case sampler_next s of
        Inl e \<Rightarrow> (if e = StopIteration then Some (Inr []) else Some (Inl e))
      | Inr (b, s') \<Rightarrow>
          Option.bind (drain s')
            (\<lambda>r. Some (case r of Inl e \<Rightarrow> Inl e | Inr bs \<Rightarrow> Inr (b # bs))))"

definition iterate_sampler :: "'a TripleIndexBatchSampler \<Rightarrow> (py_error + int list list) option" where
  "iterate_sampler s = drain (sampler_iter s)"

section \<open>TripleSource (lines 16 to 82)\<close>

record TripleIndex =
  head :: int
  relation :: int
  tail :: int

record TripleSource =
  data_dir :: string
  train_set :: "TripleIndex list"
  valid_set :: "TripleIndex list"
  test_set :: "TripleIndex list"
  num_entity :: int
  num_relation :: int

definition TRAIN_FILENAME :: string where
  "TRAIN_FILENAME = ''train.txt''"

definition VALID_FILENAME :: string where
  "VALID_FILENAME = ''valid.txt''"

definition TEST_FILENAME :: string where
  "TEST_FILENAME = ''test.txt''"

definition path_join :: "string \<Rightarrow> string \<Rightarrow> string" where
  \<comment> \<open>\<^verbatim>\<open>os.path.join(a, b)\<close> for a relative \<open>b\<close>.\<close>
  "path_join a b = (if a = [] \<or> last a = CHR ''/'' then a @ b else a @ ''/'' @ b)"

text \<open>
  Python's \<^verbatim>\<open>max(xs, key=f)\<close> raises ValueError on an empty sequence and otherwise
  returns the first element whose key is maximal: a later element replaces the current
  one only when its key is strictly greater.
\<close>

fun max_key :: "('a \<Rightarrow> int) \<Rightarrow> 'a list \<Rightarrow> py_error + 'a" where
  "max_key key [] = Inl ValueError"
| "max_key key (x # xs) = Inr (foldl (\<lambda>m y. if key m < key y then y else m) x xs)"

text \<open>A list comprehension evaluates its elements in order; the first exception ends it.\<close>

fun py_map :: "('a \<Rightarrow> py_error + 'b) \<Rightarrow> 'a list \<Rightarrow> py_error + 'b list" where
  "py_map f [] = Inr []"
| "py_map f (x # xs) = py_bind (f x) (\<lambda>y. py_bind (py_map f xs) (\<lambda>ys. Inr (y # ys)))"

definition max_over_sets :: "('a \<Rightarrow> int) \<Rightarrow> 'a list list \<Rightarrow> py_error + 'a" where
  \<comment> \<open>\<^verbatim>\<open>max([max(s, key=k) for s in sets], key=k)\<close>\<close>
  "max_over_sets key sets = py_bind (py_map (max_key key) sets) (max_key key)"

text \<open>
  \<^verbatim>\<open>kgekit.io.read_triple_indexes\<close> is the external parser: it is the parameter
  \<open>read_triple_indexes\<close>, from a path, a field order and a delimiter to the parsed
  triples and the number of lines that failed to parse.
\<close>

definition TripleSource_init ::
  "(string \<Rightarrow> string \<Rightarrow> string \<Rightarrow> TripleIndex list \<times> int)
    \<Rightarrow> string \<Rightarrow> string \<Rightarrow> string \<Rightarrow> py_error + TripleSource" where
  "TripleSource_init read_triple_indexes dir triple_order delimiter =
     (case read_triple_indexes (path_join dir TRAIN_FILENAME) triple_order delimiter of
        (train, num_failed) \<Rightarrow>
     if num_failed \<noteq> 0 then Inl AssertionError else
     (case read_triple_indexes (path_join dir VALID_FILENAME) triple_order delimiter of
        (valid, num_failed) \<Rightarrow>
     if num_failed \<noteq> 0 then Inl AssertionError else
     (case read_triple_indexes (path_join dir TEST_FILENAME) triple_order delimiter of
        (test, num_failed) \<Rightarrow>
     if num_failed \<noteq> 0 then Inl AssertionError else
     py_bind (max_over_sets head [train, valid, test]) (\<lambda>max_head.
     py_bind (max_over_sets tail [train, valid, test]) (\<lambda>max_tail.
     py_bind (max_over_sets relation [train, valid, test]) (\<lambda>max_relation.
     Inr \<lparr>data_dir = dir, train_set = train, valid_set = valid, test_set = test,
          num_entity = max (head max_head) (tail max_tail) + 1,
          num_relation = relation max_relation + 1\<rparr>))))))"

section \<open>TripleIndexesDataset (lines 85 to 118)\<close>

definition no_dataset_type_msg :: string where
  "no_dataset_type_msg = ''DatasetType doesn't exists. It's ''"

text \<open>
  The transform is always given by the one caller in this module (line 235), so it is
  a function here; the dataset is the list \<^verbatim>\<open>self.triples\<close>.
\<close>

definition TripleIndexesDataset_init ::
  "TripleSource \<Rightarrow> py_value \<Rightarrow> (TripleIndex list \<Rightarrow> 'a list) \<Rightarrow> py_error + 'a list" where
  "TripleIndexesDataset_init triple_source dataset_type transform =
     (if dataset_type = Kind TRAINING then Inr (transform (train_set triple_source))
      else if dataset_type = Kind VALIDATION then Inr (transform (valid_set triple_source))
      else if dataset_type = Kind TESTING then Inr (transform (test_set triple_source))
      else Inl (RuntimeError no_dataset_type_msg))"

section \<open>get\_triples\_from\_batch (lines 122 to 130)\<close>

text \<open>
  An n-dimensional array is its shape and its elements in row-major order.
  \<^verbatim>\<open>np.split(a, sections, axis=2)\<close> on a three-dimensional array computes
  \<^verbatim>\<open>a.shape[2] % sections\<close> first (ZeroDivisionError for 0 sections, ValueError for an
  unequal division) and returns \<open>sections\<close> arrays of equal width along the last axis.
  \<^verbatim>\<open>reshape\<close> raises ValueError when the new shape has another number of elements.
\<close>

record ndarray =
  shape :: "nat list"
  elems :: "int list"

definition wf_ndarray :: "ndarray \<Rightarrow> bool" where
  "wf_ndarray a = (length (elems a) = prod_list (shape a))"

definition split_piece :: "ndarray \<Rightarrow> nat \<Rightarrow> nat \<Rightarrow> nat \<Rightarrow> nat \<Rightarrow> nat \<Rightarrow> ndarray" where
  "split_piece a b s n w k =
     \<lparr>shape = [b, s, w],
      elems = concat (map (\<lambda>p. take w (drop (p * n + k * w) (elems a))) [0..<b * s])\<rparr>"

definition np_split_axis2 :: "ndarray \<Rightarrow> nat \<Rightarrow> py_error + ndarray list" where
  "np_split_axis2 a sections =
     (case shape a of
        [b, s, n] \<Rightarrow>
          if sections = 0 then Inl ZeroDivisionError
          else if n mod sections \<noteq> 0 then Inl ValueError
          else Inr (map (split_piece a b s n (n div sections)) [0..<sections])
      | _ \<Rightarrow> Inl ValueError)"

definition np_reshape :: "ndarray \<Rightarrow> nat list \<Rightarrow> py_error + ndarray" where
  "np_reshape a new_shape =
     (if prod_list new_shape = prod_list (shape a) then Inr (a\<lparr>shape := new_shape\<rparr>)
      else Inl ValueError)"

text \<open>
  The function returns a generator; the value here is the list of the arrays it yields
  when it is consumed, or the exception that consuming it raises.
\<close>

definition get_triples_from_batch :: "ndarray \<Rightarrow> py_error + ndarray list" where
  "get_triples_from_batch batch =
     (case shape batch of
        [batch_sz, num_samples, num_element] \<Rightarrow>
          py_bind (np_split_axis2 batch num_element) (\<lambda>elements.
            if num_samples \<le> 1 then py_map (\<lambda>e. np_reshape e [batch_sz]) elements
            else py_map (\<lambda>e. np_reshape e [batch_sz, num_samples]) elements)
      | _ \<Rightarrow> Inl ValueError)"

section \<open>create\_dataloader (lines 227 to 279)\<close>

text \<open>
  \<^verbatim>\<open>kgexpr/data/collators.py\<close> and \<^verbatim>\<open>transformers.py\<close> are not among the sources. A
  collation stage is named by the callable the source puts into the list
  \<^verbatim>\<open>collates\<close>; the corruption stage carries the seed of its corruptor, the negative
  expansion stage the seed of its sampler. The transform of line 235 is the parameter
  \<open>ordered_transform\<close>. The configuration holds the attributes the function reads;
  \<^verbatim>\<open>evaluation_load_factor\<close> is a number of any type \<open>'f\<close>, and the expression
  \<^verbatim>\<open>int(config.batch_size * config.evaluation_load_factor)\<close> of line 264 is the
  parameter \<open>int_of_product\<close>, which may raise (a product that is not a finite number).
\<close>

datatype stage =
    list_stack_collate
  | CorruptionCollate int
  | LCWANoThrowCollate int
  | label_collate
  | none_label_collate
  | BreakdownCollator
  | TripleTileCollate
  | label_prediction_collate

record 'f Config =
  config_triple_order :: string
  config_negative_entity :: int
  config_negative_relation :: int
  config_base_seed :: int
  config_batch_size :: int
  config_evaluation_load_factor :: 'f
  config_num_workers :: int

record 'a DataLoader =
  loader_dataset :: "'a list"
  loader_batch_sampler :: "'a TripleIndexBatchSampler"
  loader_num_workers :: int
  loader_pin_memory :: bool
  loader_collate_fn :: "stage list"

definition SAFE_MINIMAL_BATCH_SIZE :: int where
  "SAFE_MINIMAL_BATCH_SIZE = 1"

definition SEED_OFFSET :: int where
  "SEED_OFFSET = 100"

definition training_collates :: "'f Config \<Rightarrow> bool \<Rightarrow> stage list" where
  \<comment> \<open>lines 249 to 261\<close>
  "training_collates config collates_label =
     [list_stack_collate,
      CorruptionCollate (config_base_seed config + SEED_OFFSET),
      LCWANoThrowCollate (config_base_seed config)]
     @ (if collates_label then [label_collate] else [none_label_collate])
     @ [BreakdownCollator]"

definition evaluation_collates :: "bool \<Rightarrow> stage list" where
  \<comment> \<open>lines 265 to 267\<close>
  "evaluation_collates collates_label =
     [TripleTileCollate] @ (if collates_label then [label_prediction_collate] else [])"

definition make_loader :: "'f Config \<Rightarrow> 'a list \<Rightarrow> int \<Rightarrow> stage list \<Rightarrow> 'a DataLoader" where
  \<comment> \<open>lines 268 to 279\<close>
  "make_loader config ds bs collates =
     \<lparr>loader_dataset = ds,
      loader_batch_sampler = sampler_init ds bs,
      loader_num_workers = config_num_workers config,
      loader_pin_memory = True,
      loader_collate_fn = collates\<rparr>"

definition create_dataloader ::
  "(string \<Rightarrow> TripleIndex list \<Rightarrow> 'a list) \<Rightarrow> (int \<Rightarrow> 'f \<Rightarrow> py_error + int)
    \<Rightarrow> TripleSource \<Rightarrow> 'f Config \<Rightarrow> bool \<Rightarrow> py_value \<Rightarrow> py_error + 'a DataLoader" where
  "create_dataloader ordered_transform int_of_product triple_source config collates_label dataset_type =
     py_bind (TripleIndexesDataset_init triple_source dataset_type
                (ordered_transform (config_triple_order config))) (\<lambda>ds.
       if dataset_type = Kind TRAINING then
         Inr (make_loader config ds (config_batch_size config)
                (training_collates config collates_label))
       else
         py_bind (int_of_product (config_batch_size config)
                    (config_evaluation_load_factor config)) (\<lambda>k.
           Inr (make_loader config ds (max SAFE_MINIMAL_BATCH_SIZE k)
                  (evaluation_collates collates_label))))"

section \<open>sieve\_and\_expand\_triple (lines 282 to 320)\<close>

text \<open>
  Lines 286 and 287 read the name \<^verbatim>\<open>batch\<close>. It is neither a parameter nor assigned in
  the function, so Python looks it up among the names bound at module level (and the
  builtins, which have no \<^verbatim>\<open>batch\<close>) and raises NameError when it is not there. The
  names below are the ones the module binds: its imports, classes, functions and
  constants. The values computed by the two lines are not used afterwards.
\<close>

definition module_globals :: "string list" where
  "module_globals =
     [''os'', ''kgekit'', ''kgedata'', ''torch'', ''Dataset'', ''np'', ''random'',
      ''transforms'', ''functools'', ''collators'', ''constants'', ''transformers'',
      ''TripleSource'', ''TripleIndexesDataset'', ''get_triples_from_batch'',
      ''np_to_tensor'', ''_BatchElementConverter'', ''convert_triple_tuple_to_torch'',
      ''expand_triple_to_sets'', ''_SAFE_MINIMAL_BATCH_SIZE'', ''TripleIndexBatchSampler'',
      ''SEED_OFFSET'', ''create_dataloader'', ''sieve_and_expand_triple'']"

definition lookup_global :: "string \<Rightarrow> py_error + unit" where
  "lookup_global name = (if name \<in> set module_globals then Inr () else Inl NameError)"

definition dict_get :: "(string \<rightharpoonup> int) \<Rightarrow> string \<Rightarrow> py_error + int" where
  \<comment> \<open>\<^verbatim>\<open>d[k]\<close>\<close>
  "dict_get d k = (case d k of None \<Rightarrow> Inl KeyError | Some v \<Rightarrow> Inr v)"

definition known_msg :: string where
  "known_msg = ''head, relation, tail are known.''"

text \<open>
  \<^verbatim>\<open>kgedata.TripleIndex\<close> is a class of an external library; its constructor, which
  may reject its arguments, is the parameter \<open>new_TripleIndex\<close>. In each branch the
  two names are resolved first, then the TripleIndex is built, then the three arrays.
\<close>

definition sieve_and_expand_triple ::
  "nat \<Rightarrow> (int \<Rightarrow> int \<Rightarrow> int \<Rightarrow> py_error + TripleIndex)
    \<Rightarrow> TripleSource \<Rightarrow> (string \<rightharpoonup> int) \<Rightarrow> (string \<rightharpoonup> int) \<Rightarrow> string \<Rightarrow> string \<Rightarrow> string
    \<Rightarrow> py_error + ((int list \<times> int list \<times> int list) \<times> prediction_key \<times> TripleIndex)" where
  "sieve_and_expand_triple mem new_TripleIndex triple_source entities relations
       head_arg relation_arg tail_arg =
     py_bind (lookup_global ''batch'') (\<lambda>_.
       if head_arg = ''?'' then
         py_bind (dict_get relations relation_arg) (\<lambda>r.
         py_bind (dict_get entities tail_arg) (\<lambda>t.
         py_bind (new_TripleIndex (- 1) r t) (\<lambda>triple_index.
         py_bind (np_arange mem (num_entity triple_source)) (\<lambda>h'.
         py_bind (tile_scalar mem r (num_entity triple_source)) (\<lambda>r'.
         py_bind (tile_scalar mem t (num_entity triple_source)) (\<lambda>t'.
         Inr ((h', r', t'), HEAD_KEY, triple_index)))))))
       else if relation_arg = ''?'' then
         py_bind (dict_get entities head_arg) (\<lambda>h.
         py_bind (dict_get entities tail_arg) (\<lambda>t.
         py_bind (new_TripleIndex h (- 1) t) (\<lambda>triple_index.
         py_bind (tile_scalar mem h (num_relation triple_source)) (\<lambda>h'.
         py_bind (np_arange mem (num_relation triple_source)) (\<lambda>r'.
         py_bind (tile_scalar mem t (num_relation triple_source)) (\<lambda>t'.
         Inr ((h', r', t'), RELATION_KEY, triple_index)))))))
       else if tail_arg = ''?'' then
         py_bind (dict_get relations relation_arg) (\<lambda>r.
         py_bind (dict_get entities head_arg) (\<lambda>h.
         py_bind (new_TripleIndex h r (- 1)) (\<lambda>triple_index.
         py_bind (tile_scalar mem h (num_entity triple_source)) (\<lambda>h'.
         py_bind (tile_scalar mem r (num_entity triple_source)) (\<lambda>r'.
         py_bind (np_arange mem (num_entity triple_source)) (\<lambda>t'.
         Inr ((h', r', t'), TAIL_KEY, triple_index)))))))
       else Inl (RuntimeError known_msg))"

section \<open>Example parsers\<close>

text \<open>
  Three parse results, used to run the loader: the spec's example store; a run in which
  one line of the validation file fails to parse; a run whose test file has no row.
\<close>

definition example_reader :: "string \<Rightarrow> string \<Rightarrow> string \<Rightarrow> TripleIndex list \<times> int" where
  "example_reader path triple_order delimiter =
     (if path = ''triples/train.txt'' then
        ([\<lparr>head = 0, relation = 0, tail = 1\<rparr>, \<lparr>head = 1, relation = 1, tail = 2\<rparr>], 0)
      else if path = ''triples/valid.txt'' then ([\<lparr>head = 0, relation = 0, tail = 1\<rparr>], 0)
      else ([\<lparr>head = 1, relation = 1, tail = 2\<rparr>], 0))"

definition failing_reader :: "string \<Rightarrow> string \<Rightarrow> string \<Rightarrow> TripleIndex list \<times> int" where
  "failing_reader path triple_order delimiter =
     (if path = ''triples/valid.txt'' then ([\<lparr>head = 0, relation = 0, tail = 1\<rparr>], 1)
      else ([\<lparr>head = 1, relation = 1, tail = 2\<rparr>], 0))"

definition empty_reader :: "string \<Rightarrow> string \<Rightarrow> string \<Rightarrow> TripleIndex list \<times> int" where
  "empty_reader path triple_order delimiter =
     (if path = ''triples/test.txt'' then ([], 0)
      else ([\<lparr>head = 1, relation = 1, tail = 2\<rparr>], 0))"

section \<open>Example configuration\<close>

text \<open>
  A configuration with a small evaluation load factor, the store of the spec's example,
  and one reading of \<^verbatim>\<open>int(a * b)\<close> on exact rationals (truncation toward zero), used
  to run \<^verbatim>\<open>create_dataloader\<close>.
\<close>

definition example_int_of_product :: "int \<Rightarrow> rat \<Rightarrow> py_error + int" where
  "example_int_of_product b f =
     (let x = of_int b * f in Inr (if 0 \<le> x then \<lfloor>x\<rfloor> else \<lceil>x\<rceil>))"

definition example_config :: "rat Config" where
  "example_config =
     \<lparr>config_triple_order = ''hrt'', config_negative_entity = 1,
      config_negative_relation = 1, config_base_seed = 0, config_batch_size = 100,
      config_evaluation_load_factor = 1 / 1000, config_num_workers = 1\<rparr>"

definition example_store :: TripleSource where
  "example_store =
     \<lparr>data_dir = ''triples'',
      train_set = [\<lparr>head = 0, relation = 0, tail = 1\<rparr>, \<lparr>head = 1, relation = 1, tail = 2\<rparr>],
      valid_set = [\<lparr>head = 0, relation = 0, tail = 1\<rparr>],
      test_set = [\<lparr>head = 1, relation = 1, tail = 2\<rparr>],
      num_entity = 3, num_relation = 2\<rparr>"

section \<open>Example vocabulary\<close>

text \<open>Name-to-id tables for three entities and two relations, used to run queries.\<close>

definition example_entities :: "string \<rightharpoonup> int" where
  "example_entities = [''a'' \<mapsto> 0, ''b'' \<mapsto> 1, ''c'' \<mapsto> 2]"

definition example_TripleIndex :: "int \<Rightarrow> int \<Rightarrow> int \<Rightarrow> py_error + TripleIndex" where
  "example_TripleIndex h r t = Inr \<lparr>head = h, relation = r, tail = t\<rparr>"

definition example_relations :: "string \<rightharpoonup> int" where
  "example_relations = [''r'' \<mapsto> 0, ''s'' \<mapsto> 1]"

section \<open>Properties\<close>

subsection \<open>Helper facts\<close>

lemma np_arange_ok:
  "0 \<le> n \<Longrightarrow> n < 2 ^ 60 \<Longrightarrow> n \<le> int mem \<Longrightarrow> np_arange mem n = Inr (map int [0..<nat n])"
  by (simp add: np_arange_def np_allocate_def)

lemma tile_scalar_ok:
  "in_int64 x \<Longrightarrow> 0 \<le> n \<Longrightarrow> n < 2 ^ 60 \<Longrightarrow> n \<le> int mem
    \<Longrightarrow> tile_scalar mem x n = Inr (replicate (nat n) x)"
  by (simp add: tile_scalar_def np_array1_def np_tile_def np_allocate_def py_bind_def)

subsection \<open>expand\_triple\_to\_sets\<close>

text \<open>
  Claim C4, as the code has it. For every triple \<open>(h, r, t)\<close> whose two non-target
  fields are representable as signed 64-bit integers, every \<open>N \<ge> 0\<close> for which numpy
  can build an \<^verbatim>\<open>int64\<close> array of \<open>N\<close> elements (fewer than \<open>2 ^ 60\<close>, and no more than
  the machine can allocate), and every member of TripleElement that passes the
  validation, \<^verbatim>\<open>expand_triple_to_sets\<close> returns three arrays of length \<open>N\<close>: the target
  field is \<open>[0, N)\<close> and each of the two other fields is the constant array of the
  corresponding input field.
\<close>

theorem expand_triple_to_sets_fields:
  assumes "0 \<le> N" and "N < 2 ^ 60" and "N \<le> int mem" and "has_value (Member e)"
    and "e \<noteq> HEAD \<longrightarrow> in_int64 h"
    and "e \<noteq> RELATION \<longrightarrow> in_int64 r"
    and "e \<noteq> TAIL \<longrightarrow> in_int64 t"
  shows "\<exists>hs rs ts.
           expand_triple_to_sets mem has_value (h, r, t) N (Member e) = Inr (hs, rs, ts)
           \<and> length hs = nat N \<and> length rs = nat N \<and> length ts = nat N
           \<and> (case e of
                HEAD \<Rightarrow> hs = map int [0..<nat N] \<and> rs = replicate (nat N) r
                          \<and> ts = replicate (nat N) t
              | RELATION \<Rightarrow> hs = replicate (nat N) h \<and> rs = map int [0..<nat N]
                          \<and> ts = replicate (nat N) t
              | TAIL \<Rightarrow> hs = replicate (nat N) h \<and> rs = replicate (nat N) r
                          \<and> ts = map int [0..<nat N])"
  using assms
  by (cases e)
     (simp_all add: expand_triple_to_sets_def tile_scalar_ok np_arange_ok py_bind_def)

text \<open>The spec's example: \<open>(1, 1, 2)\<close> expanded on the head with \<open>N = 3\<close>.\<close>

theorem expand_triple_to_sets_fields_witness:
  "expand_triple_to_sets 1000 TripleElement_has_value (1, 1, 2) 3 (Member HEAD)
     = Inr ([0, 1, 2], [1, 1, 1], [2, 2, 2])"
  using expand_triple_to_sets_fields [of 3 1000 TripleElement_has_value HEAD 1 1 2]
  by (auto simp add: TripleElement_has_value_def in_int64_def numeral_3_eq_3 upt_rec)

text \<open>
  Claim C4 as it is written, for every triple and every \<open>N \<ge> 0\<close>, fails in two places:
  where a non-target field does not fit the \<^verbatim>\<open>int64\<close> element type of line 177 (the
  conversion raises OverflowError), and where \<open>N\<close> is more than an array can hold
  (\<^verbatim>\<open>np.arange\<close> raises, so the call ends in an exception).
\<close>

theorem expand_triple_to_sets_overflow:
  "expand_triple_to_sets 1000 TripleElement_has_value (2 ^ 63, 0, 0) 1 (Member TAIL)
     = Inl OverflowError
   \<and> isl (expand_triple_to_sets 1000 TripleElement_has_value (1, 1, 2) (2 ^ 63) (Member HEAD))"
  by (simp add: expand_triple_to_sets_def TripleElement_has_value_def tile_scalar_def
      np_array1_def in_int64_def np_arange_def np_allocate_def py_bind_def)

text \<open>
  Claim C6, as the code has it. Whenever the validation of line 162 rejects the target,
  and so for every target that is not a member of {head, relation, tail} under the
  spec's validation, \<^verbatim>\<open>expand_triple_to_sets\<close> fails with the RuntimeError of line 163,
  whatever the triple and the number of expansions.
\<close>

theorem expand_triple_to_sets_invalid_target:
  "(\<not> has_value v \<longrightarrow>
      expand_triple_to_sets mem has_value triple n v = Inl (RuntimeError wrong_value_msg))
   \<and> ((\<forall>e. v \<noteq> Member e) \<longrightarrow>
      expand_triple_to_sets mem TripleElement_has_value triple n v
        = Inl (RuntimeError wrong_value_msg))"
  by (cases v) (simp_all add: expand_triple_to_sets_def TripleElement_has_value_def)

theorem expand_triple_to_sets_invalid_target_witness:
  "expand_triple_to_sets 1000 TripleElement_has_value (1, 1, 2) 3 (Py_int 7)
     = Inl (RuntimeError wrong_value_msg)"
  using expand_triple_to_sets_invalid_target
          [of TripleElement_has_value "Py_int 7" 1000 "(1, 1, 2)" 3]
  by simp

text \<open>
  Claim C6 as it is written names the exception InvalidTargetError; the exception the
  code raises for the target \<open>7\<close> is of class RuntimeError.
\<close>

theorem expand_triple_to_sets_not_InvalidTargetError:
  "expand_triple_to_sets 1000 TripleElement_has_value (1, 1, 2) 3 (Py_int 7)
     = Inl (RuntimeError wrong_value_msg)
   \<and> class_name (RuntimeError wrong_value_msg) \<noteq> ''InvalidTargetError''"
  by (simp add: expand_triple_to_sets_def TripleElement_has_value_def)

text \<open>
  Claim C10. A target that passes the validation is one of the members HEAD, RELATION
  and TAIL, and \<^verbatim>\<open>expand_triple_to_sets\<close> never ends in the RuntimeError of the final
  \<^verbatim>\<open>else\<close> branch (line 181) for it.
\<close>

theorem miracle_branch_unreachable:
  assumes "TripleElement_has_value v"
  shows "(v = Member HEAD \<or> v = Member RELATION \<or> v = Member TAIL)
         \<and> expand_triple_to_sets mem TripleElement_has_value triple n v
             \<noteq> Inl (RuntimeError miracle_msg)"
proof -
  from assms obtain e where v: "v = Member e"
    by (cases v) (simp_all add: TripleElement_has_value_def)
  have "expand_triple_to_sets mem TripleElement_has_value triple n (Member e)
          \<noteq> Inl (RuntimeError miracle_msg)"
    by (cases e; cases triple)
       (auto simp add: expand_triple_to_sets_def TripleElement_has_value_def py_bind_def
          tile_scalar_def np_array1_def np_tile_def np_arange_def np_allocate_def
          split: sum.splits if_splits)
  with v show ?thesis by (cases e) simp_all
qed

theorem miracle_branch_unreachable_witness:
  "TripleElement_has_value (Member RELATION)
   \<and> expand_triple_to_sets 1000 TripleElement_has_value (1, 1, 2) 3 (Member RELATION)
       \<noteq> Inl (RuntimeError miracle_msg)"
  using miracle_branch_unreachable [of "Member RELATION" 1000 "(1, 1, 2)" 3]
  by (simp add: TripleElement_has_value_def)

subsection \<open>TripleIndexBatchSampler\<close>

lemma fill_batch_append:
  assumes "0 \<le> m" and "0 \<le> n"
  shows "fill_batch c m @ fill_batch (c + m) n = fill_batch c (m + n)"
proof -
  have "[0..<nat m + nat n] = [0..<nat m] @ [nat m..<nat m + nat n]"
    by (rule upt_add_eq_append) simp
  moreover have "[nat m..<nat m + nat n] = map (\<lambda>i. i + nat m) [0..<nat n]"
    by (simp add: map_add_upt add.commute)
  ultimately have "[0..<nat (m + n)] = [0..<nat m] @ map (\<lambda>i. i + nat m) [0..<nat n]"
    using assms by (simp add: nat_add_distrib)
  then show ?thesis using assms
    by (simp add: fill_batch_def o_def ac_simps)
qed

lemma length_fill_batch: "length (fill_batch c n) = nat n"
  by (simp add: fill_batch_def)

lemma ceil_div_step:
  fixes d B :: int
  assumes "0 < B"
  shows "(d + B + B - 1) div B = 1 + (d + B - 1) div B"
proof -
  have "(d + B + B - 1) div B = ((d + B - 1) + B) div B"
    by (rule arg_cong [where f = "\<lambda>x. x div B"]) arith
  also have "\<dots> = (d + B - 1) div B + 1"
    using assms by (intro div_add_self2) simp
  finally show ?thesis by linarith
qed

lemma drain_stop:
  assumes "max_item s \<le> cursor s" and "0 < batch_size s"
  shows "drain s = Some (Inr [])"
  using assms by (subst drain.simps) (simp add: sampler_next_def Let_def)

lemma drain_chunks:
  assumes "0 < batch_size s"
  shows "\<exists>chunks. drain s = Some (Inr chunks)
           \<and> concat chunks = fill_batch (cursor s) (max_item s - cursor s)
           \<and> int (length chunks) = (max 0 (max_item s - cursor s) + batch_size s - 1) div batch_size s
           \<and> (cursor s < max_item s \<longrightarrow> chunks \<noteq> []
                \<and> int (length (last chunks)) =
                    (if (max_item s - cursor s) mod batch_size s = 0 then batch_size s
                     else (max_item s - cursor s) mod batch_size s))"
  using assms
proof (induction "nat (max_item s - cursor s)" arbitrary: s rule: less_induct)
  case less
  let ?B = "batch_size s" and ?c = "cursor s" and ?L = "max_item s"
  show ?case
  proof (cases "?c + ?B < ?L")
    case True
    let ?s' = "s\<lparr>cursor := ?c + ?B\<rparr>"
    have nxt: "sampler_next s = Inr (fill_batch ?c ?B, ?s')"
      using True less.prems by (simp add: sampler_next_def)
    have "nat (max_item ?s' - cursor ?s') < nat (?L - ?c)"
      using True less.prems by simp
    from less.hyps [OF this] less.prems
    obtain chunks where ch: "drain ?s' = Some (Inr chunks)"
      "concat chunks = fill_batch (?c + ?B) (?L - (?c + ?B))"
      "int (length chunks) = (max 0 (?L - (?c + ?B)) + ?B - 1) div ?B"
      "chunks \<noteq> []"
      "int (length (last chunks)) =
         (if (?L - (?c + ?B)) mod ?B = 0 then ?B else (?L - (?c + ?B)) mod ?B)"
      using True by auto
    have d: "drain s = Some (Inr (fill_batch ?c ?B # chunks))"
      by (subst drain.simps) (simp add: nxt ch(1))
    have c1: "concat (fill_batch ?c ?B # chunks) = fill_batch ?c (?L - ?c)"
      using fill_batch_append [of ?B "?L - (?c + ?B)" ?c] True less.prems
      by (simp add: ch(2))
    have "(max 0 (?L - ?c) + ?B - 1) div ?B = 1 + (max 0 (?L - (?c + ?B)) + ?B - 1) div ?B"
      using ceil_div_step [of ?B "?L - (?c + ?B)"] True less.prems
      by (simp add: max_def algebra_simps)
    then have c2: "int (length (fill_batch ?c ?B # chunks)) = (max 0 (?L - ?c) + ?B - 1) div ?B"
      using ch(3) by simp
    have "?L - (?c + ?B) = (?L - ?c) - ?B" by simp
    then have m: "(?L - (?c + ?B)) mod ?B = (?L - ?c) mod ?B"
      by (simp only: minus_mod_self2)
    have c3: "int (length (last (fill_batch ?c ?B # chunks))) =
                (if (?L - ?c) mod ?B = 0 then ?B else (?L - ?c) mod ?B)"
      using ch(4,5) m by simp
    show ?thesis using d c1 c2 c3 by blast
  next
    case False
    show ?thesis
    proof (cases "?L - ?c \<le> 0")
      case True
      then have "drain s = Some (Inr [])"
        using less.prems by (intro drain_stop) simp_all
      moreover have "fill_batch ?c (?L - ?c) = []"
        using True by (simp add: fill_batch_def)
      moreover have "(max 0 (?L - ?c) + ?B - 1) div ?B = 0"
        using True less.prems by (simp add: max_def)
      ultimately show ?thesis using True by simp
    next
      case pos: False
      let ?bs = "?L - ?c"
      let ?s' = "s\<lparr>cursor := ?c + ?bs\<rparr>"
      have nxt: "sampler_next s = Inr (fill_batch ?c ?bs, ?s')"
        using False pos by (simp add: sampler_next_def Let_def)
      have "drain ?s' = Some (Inr [])"
        using less.prems by (intro drain_stop) simp_all
      then have d: "drain s = Some (Inr [fill_batch ?c ?bs])"
        by (subst drain.simps) (simp add: nxt)
      have le: "0 < ?bs" "?bs \<le> ?B" using False pos by simp_all
      have c2: "(max 0 ?bs + ?B - 1) div ?B = 1"
      proof -
        have "(max 0 ?bs + ?B - 1) div ?B = ((?bs - 1) + ?B) div ?B"
          by (rule arg_cong [where f = "\<lambda>x. x div ?B"]) (use le in arith)
        also have "\<dots> = (?bs - 1) div ?B + 1"
          using less.prems by (intro div_add_self2) simp
        also have "(?bs - 1) div ?B = 0" using le by simp
        finally show ?thesis by simp
      qed
      have c3: "int (nat ?bs) = (if ?bs mod ?B = 0 then ?B else ?bs mod ?B)"
      proof (cases "?bs = ?B")
        case True then show ?thesis using le by simp
      next
        case False
        then have "?bs mod ?B = ?bs" using le by simp
        then show ?thesis using le by simp
      qed
      show ?thesis using d c2 c3 le by (simp add: length_fill_batch)
    qed
  qed
qed


lemma ceil_div_code:
  fixes L B :: int
  assumes "0 < B"
  shows "(L + B - 1) div B = \<lceil>real_of_int L / real_of_int B\<rceil>"
proof -
  define q where "q = (L + B - 1) div B"
  define r where "r = (L + B - 1) mod B"
  have r: "0 \<le> r" "r < B" using assms by (simp_all add: r_def)
  have "L + B - 1 = B * q + r" by (simp add: q_def r_def)
  then have "- L = B * (- q) + (B - 1 - r)" by (simp add: algebra_simps)
  moreover have "0 \<le> B - 1 - r" "B - 1 - r < B" using r by simp_all
  ultimately have "(- L) div B = - q" by (rule int_div_pos_eq)
  then show ?thesis by (simp add: ceiling_divide_eq_div q_def)
qed

lemma sampler_next_stop:
  assumes "0 < batch_size s"
  shows "(sampler_next s = Inl StopIteration) = (max_item s \<le> cursor s)"
  using assms by (auto simp add: sampler_next_def Let_def)

text \<open>
  Claim C2. For a dataset of length \<open>L > 0\<close> and a batch size \<open>B > 0\<close>, iterating the
  sampler ends and yields chunks whose concatenation is the ascending sequence
  \<open>[0, L)\<close>; the number of chunks is \<open>\<lceil>L / B\<rceil>\<close>; the last chunk has length \<open>L mod B\<close>,
  or \<open>B\<close> when \<open>B\<close> divides \<open>L\<close>; \<^verbatim>\<open>__len__\<close> returns \<open>\<lceil>L / B\<rceil>\<close>; and \<^verbatim>\<open>__next__\<close>
  raises StopIteration exactly when the cursor has reached \<open>L\<close>.
\<close>

theorem sampler_chunks:
  assumes "ds \<noteq> []" and "0 < B"
  shows "\<exists>chunks. iterate_sampler (sampler_init ds B) = Some (Inr chunks)
           \<and> concat chunks = map int [0..<length ds]
           \<and> int (length chunks) = \<lceil>real (length ds) / real_of_int B\<rceil>
           \<and> chunks \<noteq> []
           \<and> int (length (last chunks))
               = (if int (length ds) mod B = 0 then B else int (length ds) mod B)
           \<and> sampler_len (sampler_init ds B) = \<lceil>real (length ds) / real_of_int B\<rceil>
           \<and> (\<forall>c. (sampler_next ((sampler_iter (sampler_init ds B))\<lparr>cursor := c\<rparr>)
                      = Inl StopIteration) = (int (length ds) \<le> c))"
proof -
  let ?s = "sampler_iter (sampler_init ds B)"
  have s: "batch_size ?s = B" "cursor ?s = 0" "max_item ?s = int (length ds)"
    by (simp_all add: sampler_iter_def sampler_init_def)
  have pos: "0 < int (length ds)" using assms(1) by simp
  from drain_chunks [of ?s] assms(2) pos
  obtain chunks where ch: "drain ?s = Some (Inr chunks)"
    "concat chunks = fill_batch 0 (int (length ds))"
    "int (length chunks) = (max 0 (int (length ds)) + B - 1) div B"
    "chunks \<noteq> []"
    "int (length (last chunks))
       = (if int (length ds) mod B = 0 then B else int (length ds) mod B)"
    unfolding s by auto
  have c: "\<lceil>real (length ds) / real_of_int B\<rceil> = (int (length ds) + B - 1) div B"
    using ceil_div_code [OF assms(2), of "int (length ds)"] by simp
  have "iterate_sampler (sampler_init ds B) = Some (Inr chunks)"
    by (simp add: iterate_sampler_def ch(1))
  moreover have "concat chunks = map int [0..<length ds]"
    by (simp add: ch(2) fill_batch_def)
  moreover have "int (length chunks) = \<lceil>real (length ds) / real_of_int B\<rceil>"
    using ch(3) by (simp add: c)
  moreover have "sampler_len (sampler_init ds B) = \<lceil>real (length ds) / real_of_int B\<rceil>"
    by (simp add: c sampler_len_def sampler_init_def)
  moreover have "\<forall>c. (sampler_next (?s\<lparr>cursor := c\<rparr>) = Inl StopIteration) = (int (length ds) \<le> c)"
    using assms(2) by (simp add: sampler_next_stop s)
  ultimately show ?thesis using ch(4,5) by blast
qed

text \<open>Five items in batches of two: the chunks are computed by unfolding the loop.\<close>

lemma drain_five_two:
  "iterate_sampler (sampler_init [a, b, c, d, e] 2) = Some (Inr [[0, 1], [2, 3], [4]])"
  apply (simp add: iterate_sampler_def sampler_iter_def sampler_init_def)
  apply (subst drain.simps, simp add: sampler_next_def fill_batch_def upt_rec)
  apply (subst drain.simps, simp add: sampler_next_def fill_batch_def upt_rec)
  apply (subst drain.simps, simp add: sampler_next_def fill_batch_def upt_rec)
  apply (subst drain.simps, simp add: sampler_next_def fill_batch_def upt_rec)
  done

theorem sampler_chunks_witness:
  "iterate_sampler (sampler_init [(), (), (), (), ()] 2) = Some (Inr [[0, 1], [2, 3], [4]])
   \<and> concat [[0, 1], [2, 3], [4 :: int]] = map int [0..<5]
   \<and> length [[0, 1], [2, 3], [4 :: int]] = 3
   \<and> \<lceil>(5 :: real) / 2\<rceil> = 3
   \<and> sampler_len (sampler_init [(), (), (), (), ()] 2) = 3
   \<and> sampler_next ((sampler_iter (sampler_init [(), (), (), (), ()] 2))\<lparr>cursor := 5\<rparr>)
       = Inl StopIteration"
proof -
  have e: "iterate_sampler (sampler_init [(), (), (), (), ()] 2) = Some (Inr [[0, 1], [2, 3], [4]])"
    by (rule drain_five_two)
  have c5: "\<lceil>(5 :: real) / 2\<rceil> = 3" by simp
  from sampler_chunks [of "[(), (), (), (), ()]" 2]
  obtain chunks where ch: "iterate_sampler (sampler_init [(), (), (), (), ()] 2) = Some (Inr chunks)"
    "concat chunks = map int [0..<length [(), (), (), (), ()]]"
    "int (length chunks) = \<lceil>real (length [(), (), (), (), ()]) / real_of_int 2\<rceil>"
    "sampler_len (sampler_init [(), (), (), (), ()] 2) = \<lceil>real (length [(), (), (), (), ()]) / real_of_int 2\<rceil>"
    "\<forall>c. (sampler_next ((sampler_iter (sampler_init [(), (), (), (), ()] 2))\<lparr>cursor := c\<rparr>)
                      = Inl StopIteration) = (int (length [(), (), (), (), ()]) \<le> c)"
    by auto
  from ch(1) e have eq: "chunks = [[0, 1], [2, 3], [4]]" by simp
  have "concat [[0, 1], [2, 3], [4 :: int]] = map int [0..<5]"
    by (simp add: upt_rec)
  moreover have "length [[0, 1], [2, 3], [4 :: int]] = 3" by simp
  moreover have "sampler_len (sampler_init [(), (), (), (), ()] 2) = 3"
    using ch(4) c5 by simp
  moreover have "sampler_next ((sampler_iter (sampler_init [(), (), (), (), ()] 2))\<lparr>cursor := 5\<rparr>)
       = Inl StopIteration"
    using ch(5) by simp
  ultimately show ?thesis using e c5 by blast
qed

subsection \<open>TripleSource\<close>

lemma foldl_max_key:
  fixes key :: "'a \<Rightarrow> int"
  shows "foldl (\<lambda>m y. if key m < key y then y else m) x xs \<in> set (x # xs)
   \<and> key (foldl (\<lambda>m y. if key m < key y then y else m) x xs) = Max (key ` set (x # xs))"
proof (induction xs arbitrary: x)
  case Nil
  then show ?case by simp
next
  case (Cons y ys)
  let ?x' = "if key x < key y then y else x"
  have k: "key ?x' = max (key x) (key y)" by (simp add: max_def)
  have "Max (key ` set (x # y # ys)) = max (max (key x) (key y)) (Max (key ` set (y # ys)))"
    by (simp add: max.assoc max.left_commute)
  also have "\<dots> = Max (key ` set (?x' # ys))"
  proof (cases "ys = []")
    case True then show ?thesis by (simp add: k)
  next
    case False
    then have "Max (key ` set (y # ys)) = max (key y) (Max (key ` set ys))" by simp
    moreover have "Max (key ` set (?x' # ys)) = max (key ?x') (Max (key ` set ys))"
      using False by simp
    ultimately show ?thesis unfolding k by (simp add: max.assoc max.left_commute)
  qed
  finally have m: "Max (key ` set (x # y # ys)) = Max (key ` set (?x' # ys))" .
  from Cons.IH [of ?x'] show ?case
    unfolding m by (auto split: if_splits)
qed

lemma max_key_Inr:
  assumes "max_key key xs = Inr m"
  shows "xs \<noteq> [] \<and> m \<in> set xs \<and> key m = Max (key ` set xs)"
proof (cases xs)
  case Nil
  with assms show ?thesis by simp
next
  case (Cons x ys)
  with assms have "m = foldl (\<lambda>m y. if key m < key y then y else m) x ys" by simp
  then show ?thesis using foldl_max_key [of key x ys] Cons by simp
qed

lemma max_key_nonempty: "xs \<noteq> [] \<Longrightarrow> \<exists>m. max_key key xs = Inr m"
  by (cases xs) simp_all

lemma max_key_empty: "max_key key [] = Inl ValueError"
  by simp

lemma max_over_sets_Inr:
  assumes "max_over_sets key [a, b, c] = Inr m"
  shows "a \<noteq> [] \<and> b \<noteq> [] \<and> c \<noteq> [] \<and> key m = Max (key ` (set a \<union> set b \<union> set c))"
proof -
  from assms obtain ma mb mc where
    ms: "max_key key a = Inr ma" "max_key key b = Inr mb" "max_key key c = Inr mc"
    and m: "max_key key [ma, mb, mc] = Inr m"
    by (auto simp add: max_over_sets_def py_bind_def split: sum.splits)
  note pa = max_key_Inr [OF ms(1)] and pb = max_key_Inr [OF ms(2)] and pc = max_key_Inr [OF ms(3)]
  have "key m = Max (key ` {ma, mb, mc})" using max_key_Inr [OF m] by simp
  also have "\<dots> = max (key ma) (max (key mb) (key mc))" by simp
  also have "\<dots> = max (Max (key ` set a)) (max (Max (key ` set b)) (Max (key ` set c)))"
    using pa pb pc by simp
  also have "\<dots> = Max (key ` (set a \<union> set b \<union> set c))"
    using pa pb pc by (simp add: image_Un Max_Un max.assoc)
  finally show ?thesis using pa pb pc by simp
qed

lemma max_over_sets_nonempty:
  assumes "a \<noteq> []" "b \<noteq> []" "c \<noteq> []"
  shows "\<exists>m. max_over_sets key [a, b, c] = Inr m"
proof -
  from assms obtain ma mb mc where
    "max_key key a = Inr ma" "max_key key b = Inr mb" "max_key key c = Inr mc"
    using max_key_nonempty by metis
  then show ?thesis by (simp add: max_over_sets_def py_bind_def)
qed

lemma max_over_sets_empty:
  assumes "a = [] \<or> b = [] \<or> c = []"
  shows "max_over_sets key [a, b, c] = Inl ValueError"
proof -
  have "py_map (max_key key) [a, b, c] = Inl ValueError"
    using assms by (cases a; cases b; cases c) (simp_all add: py_bind_def)
  then show ?thesis by (simp add: max_over_sets_def py_bind_def)
qed

lemma TripleSource_init_Inr:
  assumes "TripleSource_init rd dir ord dl = Inr s"
  shows "rd (path_join dir TRAIN_FILENAME) ord dl = (train_set s, 0)
       \<and> rd (path_join dir VALID_FILENAME) ord dl = (valid_set s, 0)
       \<and> rd (path_join dir TEST_FILENAME) ord dl = (test_set s, 0)
       \<and> train_set s \<noteq> [] \<and> valid_set s \<noteq> [] \<and> test_set s \<noteq> []
       \<and> (\<exists>mh mt mr.
            max_over_sets head [train_set s, valid_set s, test_set s] = Inr mh
          \<and> max_over_sets tail [train_set s, valid_set s, test_set s] = Inr mt
          \<and> max_over_sets relation [train_set s, valid_set s, test_set s] = Inr mr
          \<and> num_entity s = max (head mh) (tail mt) + 1
          \<and> num_relation s = relation mr + 1)"
proof -
  obtain tr n1 where r1: "rd (path_join dir TRAIN_FILENAME) ord dl = (tr, n1)" by force
  obtain va n2 where r2: "rd (path_join dir VALID_FILENAME) ord dl = (va, n2)" by force
  obtain te n3 where r3: "rd (path_join dir TEST_FILENAME) ord dl = (te, n3)" by force
  from assms have z: "n1 = 0" "n2 = 0" "n3 = 0"
    by (auto simp add: TripleSource_init_def r1 r2 r3 split: if_splits)
  from assms obtain mh mt mr where
    m: "max_over_sets head [tr, va, te] = Inr mh"
       "max_over_sets tail [tr, va, te] = Inr mt"
       "max_over_sets relation [tr, va, te] = Inr mr"
    and s: "s = \<lparr>data_dir = dir, train_set = tr, valid_set = va, test_set = te,
                 num_entity = max (head mh) (tail mt) + 1,
                 num_relation = relation mr + 1\<rparr>"
    by (auto simp add: TripleSource_init_def r1 r2 r3 z py_bind_def split: sum.splits)
  have "tr \<noteq> [] \<and> va \<noteq> [] \<and> te \<noteq> []" using max_over_sets_Inr [OF m(1)] by simp
  then show ?thesis using r1 r2 r3 z m s by simp
qed

text \<open>
  Claim C1. For every store that \<^verbatim>\<open>TripleSource.__init__\<close> returns, \<open>num_entity\<close> is
  1 plus the largest entity id over the head and tail positions of the union of the
  three sets, and \<open>num_relation\<close> is 1 plus the largest relation id over the same
  union. In particular a store with the training set \<open>[(0,0,1), (1,1,2)]\<close> whose
  validation and test sets have no larger id has \<open>num_entity = 3\<close> and
  \<open>num_relation = 2\<close>.
\<close>

theorem TripleSource_vocabulary_sizes:
  assumes "TripleSource_init rd dir ord dl = Inr s"
  shows "num_entity s
           = 1 + Max (head ` (set (train_set s) \<union> set (valid_set s) \<union> set (test_set s))
                      \<union> tail ` (set (train_set s) \<union> set (valid_set s) \<union> set (test_set s)))
       \<and> num_relation s
           = 1 + Max (relation ` (set (train_set s) \<union> set (valid_set s) \<union> set (test_set s)))
       \<and> (train_set s = [\<lparr>head = 0, relation = 0, tail = 1\<rparr>, \<lparr>head = 1, relation = 1, tail = 2\<rparr>]
            \<and> (\<forall>t \<in> set (valid_set s) \<union> set (test_set s).
                  head t \<le> 2 \<and> tail t \<le> 2 \<and> relation t \<le> 1)
            \<longrightarrow> num_entity s = 3 \<and> num_relation s = 2)"
proof -
  let ?U = "set (train_set s) \<union> set (valid_set s) \<union> set (test_set s)"
  from TripleSource_init_Inr [OF assms] obtain mh mt mr where
    ne: "train_set s \<noteq> []"
    and m: "max_over_sets head [train_set s, valid_set s, test_set s] = Inr mh"
       "max_over_sets tail [train_set s, valid_set s, test_set s] = Inr mt"
       "max_over_sets relation [train_set s, valid_set s, test_set s] = Inr mr"
    and n: "num_entity s = max (head mh) (tail mt) + 1" "num_relation s = relation mr + 1"
    by blast
  have U: "finite ?U" "?U \<noteq> {}" using ne by simp_all
  have h: "head mh = Max (head ` ?U)" using max_over_sets_Inr [OF m(1)] by simp
  have t: "tail mt = Max (tail ` ?U)" using max_over_sets_Inr [OF m(2)] by simp
  have r: "relation mr = Max (relation ` ?U)" using max_over_sets_Inr [OF m(3)] by simp
  have "Max (head ` ?U \<union> tail ` ?U) = max (Max (head ` ?U)) (Max (tail ` ?U))"
    using U by (intro Max_Un) simp_all
  then have e: "num_entity s = 1 + Max (head ` ?U \<union> tail ` ?U)"
    using n(1) h t by simp
  have rl: "num_relation s = 1 + Max (relation ` ?U)" using n(2) r by simp
  have ex: "num_entity s = 3 \<and> num_relation s = 2"
    if tr: "train_set s = [\<lparr>head = 0, relation = 0, tail = 1\<rparr>, \<lparr>head = 1, relation = 1, tail = 2\<rparr>]"
    and b: "\<forall>t \<in> set (valid_set s) \<union> set (test_set s). head t \<le> 2 \<and> tail t \<le> 2 \<and> relation t \<le> 1"
  proof -
    have "Max (head ` ?U \<union> tail ` ?U) = 2"
    proof (rule Max_eqI)
      show "finite (head ` ?U \<union> tail ` ?U)" by simp
      show "2 \<in> head ` ?U \<union> tail ` ?U" by (simp add: tr image_Un)
      fix y assume "y \<in> head ` ?U \<union> tail ` ?U"
      then show "y \<le> 2" using b by (auto simp add: tr)
    qed
    moreover have "Max (relation ` ?U) = 1"
    proof (rule Max_eqI)
      show "finite (relation ` ?U)" by simp
      show "1 \<in> relation ` ?U" by (simp add: tr image_Un)
      fix y assume "y \<in> relation ` ?U"
      then show "y \<le> 1" using b by (auto simp add: tr)
    qed
    ultimately show ?thesis using e rl by simp
  qed
  show ?thesis using e rl ex by blast
qed

lemma example_reader_loads:
  "TripleSource_init example_reader ''triples'' ''hrt'' '' ''
     = Inr \<lparr>data_dir = ''triples'',
            train_set = [\<lparr>head = 0, relation = 0, tail = 1\<rparr>, \<lparr>head = 1, relation = 1, tail = 2\<rparr>],
            valid_set = [\<lparr>head = 0, relation = 0, tail = 1\<rparr>],
            test_set = [\<lparr>head = 1, relation = 1, tail = 2\<rparr>],
            num_entity = 3, num_relation = 2\<rparr>"
  by (simp add: TripleSource_init_def example_reader_def path_join_def TRAIN_FILENAME_def
      VALID_FILENAME_def TEST_FILENAME_def max_over_sets_def py_bind_def)

theorem TripleSource_vocabulary_sizes_witness:
  "\<exists>s. TripleSource_init example_reader ''triples'' ''hrt'' '' '' = Inr s
       \<and> train_set s = [\<lparr>head = 0, relation = 0, tail = 1\<rparr>, \<lparr>head = 1, relation = 1, tail = 2\<rparr>]
       \<and> num_entity s = 3 \<and> num_relation s = 2
       \<and> num_entity s
           = 1 + Max (head ` (set (train_set s) \<union> set (valid_set s) \<union> set (test_set s))
                      \<union> tail ` (set (train_set s) \<union> set (valid_set s) \<union> set (test_set s)))"
  using TripleSource_vocabulary_sizes [OF example_reader_loads]
  by (intro exI [where x = "\<lparr>data_dir = ''triples'',
            train_set = [\<lparr>head = 0, relation = 0, tail = 1\<rparr>, \<lparr>head = 1, relation = 1, tail = 2\<rparr>],
            valid_set = [\<lparr>head = 0, relation = 0, tail = 1\<rparr>],
            test_set = [\<lparr>head = 1, relation = 1, tail = 2\<rparr>],
            num_entity = 3, num_relation = 2\<rparr>"]) (simp add: example_reader_loads)

text \<open>
  Claim C5, as the code has it. With the parse results of the three files,
  \<^verbatim>\<open>TripleSource.__init__\<close> fails with AssertionError whenever the parser reports a
  failed line for any file, fails with ValueError when no line failed and one of the
  three sets has no row, and returns a store in exactly the remaining case: it never
  returns a store when a line failed to parse.
\<close>

theorem TripleSource_init_failures:
  assumes "rd (path_join dir TRAIN_FILENAME) ord dl = (tr, n1)"
    and "rd (path_join dir VALID_FILENAME) ord dl = (va, n2)"
    and "rd (path_join dir TEST_FILENAME) ord dl = (te, n3)"
  shows "(n1 \<noteq> 0 \<or> n2 \<noteq> 0 \<or> n3 \<noteq> 0
            \<longrightarrow> TripleSource_init rd dir ord dl = Inl AssertionError)
       \<and> (n1 = 0 \<and> n2 = 0 \<and> n3 = 0 \<and> (tr = [] \<or> va = [] \<or> te = [])
            \<longrightarrow> TripleSource_init rd dir ord dl = Inl ValueError)
       \<and> ((\<exists>s. TripleSource_init rd dir ord dl = Inr s)
            = (n1 = 0 \<and> n2 = 0 \<and> n3 = 0 \<and> tr \<noteq> [] \<and> va \<noteq> [] \<and> te \<noteq> []))"
proof -
  have a: "TripleSource_init rd dir ord dl = Inl AssertionError"
    if "n1 \<noteq> 0 \<or> n2 \<noteq> 0 \<or> n3 \<noteq> 0"
    using that by (auto simp add: TripleSource_init_def assms)
  have b: "TripleSource_init rd dir ord dl = Inl ValueError"
    if "n1 = 0" "n2 = 0" "n3 = 0" "tr = [] \<or> va = [] \<or> te = []"
    using that(1,2,3) max_over_sets_empty [OF that(4), of head]
    by (simp add: TripleSource_init_def assms py_bind_def)
  have c: "\<exists>s. TripleSource_init rd dir ord dl = Inr s"
    if "n1 = 0" "n2 = 0" "n3 = 0" "tr \<noteq> []" "va \<noteq> []" "te \<noteq> []"
  proof -
    from that(4,5,6) obtain mh mt mr where
      "max_over_sets head [tr, va, te] = Inr mh"
      "max_over_sets tail [tr, va, te] = Inr mt"
      "max_over_sets relation [tr, va, te] = Inr mr"
      using max_over_sets_nonempty by metis
    then show ?thesis using that(1,2,3)
      by (simp add: TripleSource_init_def assms py_bind_def)
  qed
  have d: "n1 = 0 \<and> n2 = 0 \<and> n3 = 0 \<and> tr \<noteq> [] \<and> va \<noteq> [] \<and> te \<noteq> []"
    if "TripleSource_init rd dir ord dl = Inr s" for s
    using TripleSource_init_Inr [OF that] assms by simp
  show ?thesis using a b c d by blast
qed

theorem TripleSource_init_failures_witness:
  "TripleSource_init failing_reader ''triples'' ''hrt'' '' '' = Inl AssertionError
   \<and> TripleSource_init empty_reader ''triples'' ''hrt'' '' '' = Inl ValueError
   \<and> (\<exists>s. TripleSource_init example_reader ''triples'' ''hrt'' '' '' = Inr s)"
proof -
  have 1: "TripleSource_init failing_reader ''triples'' ''hrt'' '' '' = Inl AssertionError"
    using TripleSource_init_failures [of failing_reader "''triples''" "''hrt''" "'' ''"
        "[\<lparr>head = 1, relation = 1, tail = 2\<rparr>]" 0
        "[\<lparr>head = 0, relation = 0, tail = 1\<rparr>]" 1
        "[\<lparr>head = 1, relation = 1, tail = 2\<rparr>]" 0]
    by (simp add: failing_reader_def path_join_def TRAIN_FILENAME_def VALID_FILENAME_def
        TEST_FILENAME_def)
  have 2: "TripleSource_init empty_reader ''triples'' ''hrt'' '' '' = Inl ValueError"
    using TripleSource_init_failures [of empty_reader "''triples''" "''hrt''" "'' ''"
        "[\<lparr>head = 1, relation = 1, tail = 2\<rparr>]" 0
        "[\<lparr>head = 1, relation = 1, tail = 2\<rparr>]" 0
        "[]" 0]
    by (simp add: empty_reader_def path_join_def TRAIN_FILENAME_def VALID_FILENAME_def
        TEST_FILENAME_def)
  have 3: "\<exists>s. TripleSource_init example_reader ''triples'' ''hrt'' '' '' = Inr s"
    using TripleSource_init_failures [of example_reader "''triples''" "''hrt''" "'' ''"
        "[\<lparr>head = 0, relation = 0, tail = 1\<rparr>, \<lparr>head = 1, relation = 1, tail = 2\<rparr>]" 0
        "[\<lparr>head = 0, relation = 0, tail = 1\<rparr>]" 0
        "[\<lparr>head = 1, relation = 1, tail = 2\<rparr>]" 0]
    by (simp add: example_reader_def path_join_def TRAIN_FILENAME_def VALID_FILENAME_def
        TEST_FILENAME_def)
  show ?thesis using 1 2 3 by blast
qed

text \<open>
  Claim C5 as it is written names the exceptions ParseError and IntegrityError; the
  exceptions the loader raises are the AssertionError of the \<^verbatim>\<open>assert\<close> statements and the
  ValueError of \<^verbatim>\<open>max\<close> on an empty sequence.
\<close>

theorem TripleSource_init_error_classes:
  "TripleSource_init failing_reader ''triples'' ''hrt'' '' '' = Inl AssertionError
   \<and> class_name AssertionError \<noteq> ''ParseError''
   \<and> TripleSource_init empty_reader ''triples'' ''hrt'' '' '' = Inl ValueError
   \<and> class_name ValueError \<noteq> ''IntegrityError''"
  by (simp add: TripleSource_init_def failing_reader_def empty_reader_def path_join_def
      TRAIN_FILENAME_def VALID_FILENAME_def TEST_FILENAME_def max_over_sets_def py_bind_def)

subsection \<open>create\_dataloader\<close>

text \<open>
  Claim C7. In training mode the dataloader composes the collation stages in the order
  stack, corruption tagging, negative expansion, label attachment (the label stage or
  the pass-through, chosen by \<^verbatim>\<open>collates_label\<close>), finalize. In validation and testing
  mode, whenever the batch size can be computed, the stages are the single TripleTile
  stage, followed by the label-prediction stage when \<^verbatim>\<open>collates_label\<close> is set.
\<close>

theorem create_dataloader_collates:
  "(\<exists>dl. create_dataloader tf iop ts cfg lbl (Kind TRAINING) = Inr dl
         \<and> loader_collate_fn dl =
             [list_stack_collate,
              CorruptionCollate (config_base_seed cfg + 100),
              LCWANoThrowCollate (config_base_seed cfg),
              if lbl then label_collate else none_label_collate,
              BreakdownCollator])
   \<and> ((dt = Kind VALIDATION \<or> dt = Kind TESTING)
        \<and> iop (config_batch_size cfg) (config_evaluation_load_factor cfg) = Inr k
        \<longrightarrow> (\<exists>dl. create_dataloader tf iop ts cfg lbl dt = Inr dl
               \<and> loader_collate_fn dl =
                   TripleTileCollate # (if lbl then [label_prediction_collate] else [])))"
  by (auto simp add: create_dataloader_def TripleIndexesDataset_init_def py_bind_def
      make_loader_def training_collates_def evaluation_collates_def SEED_OFFSET_def)

lemma example_product:
  "example_int_of_product (config_batch_size example_config)
     (config_evaluation_load_factor example_config) = Inr 0"
proof -
  have "\<lfloor>(1 :: rat) / 10\<rfloor> = 0" by (simp add: floor_eq_iff)
  then show ?thesis by (simp add: example_int_of_product_def example_config_def)
qed

theorem create_dataloader_collates_witness:
  "(\<exists>dl. create_dataloader (\<lambda>ord ts. ts) example_int_of_product example_store example_config
            False (Kind TRAINING) = Inr dl
         \<and> loader_collate_fn dl =
             [list_stack_collate, CorruptionCollate (config_base_seed example_config + 100),
              LCWANoThrowCollate (config_base_seed example_config),
              none_label_collate, BreakdownCollator])
   \<and> (\<exists>dl. create_dataloader (\<lambda>ord ts. ts) example_int_of_product example_store example_config
            True (Kind TESTING) = Inr dl
         \<and> loader_collate_fn dl = [TripleTileCollate, label_prediction_collate])"
  using create_dataloader_collates [of "\<lambda>ord ts. ts" example_int_of_product example_store
      example_config False "Kind TESTING" 0]
    create_dataloader_collates [of "\<lambda>ord ts. ts" example_int_of_product example_store
      example_config True "Kind TESTING" 0]
  by (simp add: example_product)

text \<open>
  Claim C9. In validation and testing mode, whenever \<^verbatim>\<open>int(config.batch_size *
  config.evaluation_load_factor)\<close> returns an integer \<open>k\<close>, the dataloader is built and
  the batch size of its sampler is \<open>max 1 k\<close>, which is at least 1. The statement holds
  for every reading \<open>iop\<close> of the product and its conversion, so it does not depend on
  how the floating-point product rounds.
\<close>

theorem evaluation_batch_size:
  assumes "dt = Kind VALIDATION \<or> dt = Kind TESTING"
    and "iop (config_batch_size cfg) (config_evaluation_load_factor cfg) = Inr k"
  shows "\<exists>dl. create_dataloader tf iop ts cfg lbl dt = Inr dl
           \<and> batch_size (loader_batch_sampler dl) = max 1 k
           \<and> 1 \<le> batch_size (loader_batch_sampler dl)"
  using assms
  by (auto simp add: create_dataloader_def TripleIndexesDataset_init_def py_bind_def
      make_loader_def sampler_init_def SAFE_MINIMAL_BATCH_SIZE_def)

theorem evaluation_batch_size_witness:
  "example_int_of_product (config_batch_size example_config)
     (config_evaluation_load_factor example_config) = Inr 0
   \<and> (\<exists>dl. create_dataloader (\<lambda>ord ts. ts) example_int_of_product example_store example_config
            False (Kind VALIDATION) = Inr dl
         \<and> batch_size (loader_batch_sampler dl) = 1)"
  using evaluation_batch_size [of "Kind VALIDATION" example_int_of_product example_config 0
      "\<lambda>ord ts. ts" example_store False]
  by (auto simp add: example_product)

subsection \<open>sieve\_and\_expand\_triple\<close>

text \<open>
  Every call of \<^verbatim>\<open>sieve_and_expand_triple\<close> ends at line 286: the name \<^verbatim>\<open>batch\<close> is
  bound nowhere, so the function raises NameError before it looks at the query,
  whatever the machine, the TripleIndex constructor, the tables and the query.
\<close>

lemma sieve_and_expand_triple_NameError:
  "sieve_and_expand_triple mem new_TripleIndex triple_source entities relations
     head_arg relation_arg tail_arg = Inl NameError"
  by (simp add: sieve_and_expand_triple_def lookup_global_def module_globals_def py_bind_def)

text \<open>
  Claim C3 says that a query with \<open>?\<close> in exactly one of head, relation and tail, whose
  two other fields are names of the tables, returns the expanded arrays, the tag of the
  queried field and a TripleIndex with \<open>-1\<close> at the unknown position. The code does not:
  for the query \<open>(?, r, c)\<close> over the example vocabulary, where both names resolve, the
  call raises NameError and returns nothing.
\<close>

theorem sieve_and_expand_triple_fails:
  "example_relations ''r'' = Some 0 \<and> example_entities ''c'' = Some 2
   \<and> sieve_and_expand_triple 1000 example_TripleIndex example_store example_entities
        example_relations ''?'' ''r'' ''c'' = Inl NameError"
  by (simp add: sieve_and_expand_triple_def lookup_global_def module_globals_def py_bind_def
      example_relations_def example_entities_def)

subsection \<open>get\_triples\_from\_batch\<close>

lemma py_map_all_Inr:
  assumes "\<forall>x \<in> set xs. f x = Inr (g x)"
  shows "py_map f xs = Inr (map g xs)"
  using assms by (induction xs) (simp_all add: py_bind_def)

lemma take_one_drop:
  assumes "n < length xs"
  shows "take (Suc 0) (drop n xs) = [xs ! n]"
proof -
  have "drop n xs = xs ! n # drop (Suc n) xs"
    using assms by (simp add: Cons_nth_drop_Suc)
  then show ?thesis by simp
qed

lemma index_in_range:
  fixes b s e p k :: nat
  assumes "p < b * s" and "k < e"
  shows "p * e + k < b * s * e"
proof -
  have "p * e + k < p * e + e" using assms(2) by simp
  also have "\<dots> = Suc p * e" by simp
  also have "\<dots> \<le> (b * s) * e" using assms(1) by (intro mult_le_mono1) simp
  finally show ?thesis .
qed

lemma split_piece_unit:
  assumes "length (elems a) = b * s * e" and "k < e"
  shows "elems (split_piece a b s e 1 k) = map (\<lambda>p. elems a ! (p * e + k)) [0..<b * s]"
proof -
  have one: "take (Suc 0) (drop (p * e + k) (elems a)) = [elems a ! (p * e + k)]"
    if "p < b * s" for p
    using index_in_range [OF that assms(2)] assms(1) by (intro take_one_drop) simp
  have "elems (split_piece a b s e 1 k)
          = concat (map (\<lambda>p. take (Suc 0) (drop (p * e + k) (elems a))) [0..<b * s])"
    by (simp add: split_piece_def)
  also have "map (\<lambda>p. take (Suc 0) (drop (p * e + k) (elems a))) [0..<b * s]
               = map (\<lambda>p. [elems a ! (p * e + k)]) [0..<b * s]"
    by (rule map_cong) (simp_all add: one)
  also have "concat (map (\<lambda>p. [elems a ! (p * e + k)]) [0..<b * s])
               = map (\<lambda>p. elems a ! (p * e + k)) [0..<b * s]"
    by (rule concat_map_singleton)
  finally show ?thesis .
qed

text \<open>
  Claim C8, as the code has it. For every batch array of shape \<open>(b, s, e)\<close> with at
  least one element per triple (\<open>e > 0\<close>) and at least one sample per row (\<open>s > 0\<close>, or
  no row at all), \<^verbatim>\<open>get_triples_from_batch\<close> yields \<open>e\<close> arrays; the \<open>k\<close>-th holds the
  \<open>k\<close>-th component of every sample, in order, and has shape \<open>(b,)\<close> when \<open>s \<le> 1\<close>
  and \<open>(b, s)\<close> otherwise.
\<close>

theorem get_triples_from_batch_shapes:
  assumes "wf_ndarray batch" and "shape batch = [b, s, e]"
    and "0 < e" and "0 < s \<or> b = 0"
  shows "\<exists>arrs. get_triples_from_batch batch = Inr arrs
           \<and> length arrs = e
           \<and> (\<forall>k < e. shape (arrs ! k) = (if s \<le> 1 then [b] else [b, s])
                      \<and> elems (arrs ! k) = map (\<lambda>p. elems batch ! (p * e + k)) [0..<b * s])"
proof -
  let ?new = "if s \<le> 1 then [b] else [b, s]"
  let ?pieces = "map (split_piece batch b s e 1) [0..<e]"
  have len: "length (elems batch) = b * s * e"
    using assms(1,2) by (simp add: wf_ndarray_def)
  have sp: "np_split_axis2 batch e = Inr ?pieces"
    using assms(2,3) by (simp add: np_split_axis2_def)
  have size: "prod_list ?new = b * s"
    using assms(4) by (cases "s = 1") auto
  have rs: "\<forall>x \<in> set ?pieces. np_reshape x ?new = Inr (x\<lparr>shape := ?new\<rparr>)"
    using size by (auto simp add: np_reshape_def split_piece_def)
  have pm: "py_map (\<lambda>x. np_reshape x ?new) ?pieces = Inr (map (\<lambda>x. x\<lparr>shape := ?new\<rparr>) ?pieces)"
    using rs by (rule py_map_all_Inr)
  have g: "get_triples_from_batch batch = Inr (map (\<lambda>x. x\<lparr>shape := ?new\<rparr>) ?pieces)"
  proof (cases "s \<le> 1")
    case True
    with pm show ?thesis
      by (simp add: get_triples_from_batch_def assms(2) sp py_bind_def)
  next
    case False
    with pm show ?thesis
      by (simp add: get_triples_from_batch_def assms(2) sp py_bind_def)
  qed
  have "shape (map (\<lambda>x. x\<lparr>shape := ?new\<rparr>) ?pieces ! k) = ?new
        \<and> elems (map (\<lambda>x. x\<lparr>shape := ?new\<rparr>) ?pieces ! k)
            = map (\<lambda>p. elems batch ! (p * e + k)) [0..<b * s]"
    if "k < e" for k
    using that split_piece_unit [OF len that] by simp
  then show ?thesis using g by simp
qed

theorem get_triples_from_batch_shapes_witness:
  "get_triples_from_batch \<lparr>shape = [2, 1, 3], elems = [0, 0, 1, 1, 1, 2]\<rparr>
     = Inr [\<lparr>shape = [2], elems = [0, 1]\<rparr>, \<lparr>shape = [2], elems = [0, 1]\<rparr>,
            \<lparr>shape = [2], elems = [1, 2]\<rparr>]
   \<and> (\<exists>arrs. get_triples_from_batch \<lparr>shape = [1, 2, 3], elems = [0, 0, 1, 0, 0, 3]\<rparr> = Inr arrs
         \<and> length arrs = 3 \<and> shape (arrs ! 2) = [1, 2] \<and> elems (arrs ! 2) = [1, 3])"
proof -
  have 1: "get_triples_from_batch \<lparr>shape = [2, 1, 3], elems = [0, 0, 1, 1, 1, 2]\<rparr>
     = Inr [\<lparr>shape = [2], elems = [0, 1]\<rparr>, \<lparr>shape = [2], elems = [0, 1]\<rparr>,
            \<lparr>shape = [2], elems = [1, 2]\<rparr>]"
    by code_simp
  from get_triples_from_batch_shapes
         [of "\<lparr>shape = [1, 2, 3], elems = [0, 0, 1, 0, 0, 3]\<rparr>" 1 2 3]
  obtain arrs where a: "get_triples_from_batch \<lparr>shape = [1, 2, 3], elems = [0, 0, 1, 0, 0, 3]\<rparr> = Inr arrs"
    "length arrs = 3"
    "\<forall>k < 3. shape (arrs ! k) = [1, 2]
       \<and> elems (arrs ! k) = map (\<lambda>p. [0, 0, 1, 0, 0, 3 :: int] ! (p * 3 + k)) [0..<2]"
    by (auto simp add: wf_ndarray_def)
  from a(3) have "shape (arrs ! 2) = [1, 2]"
    "elems (arrs ! 2) = map (\<lambda>p. [0, 0, 1, 0, 0, 3 :: int] ! (p * 3 + 2)) [0..<2]"
    by simp_all
  moreover have "map (\<lambda>p. [0, 0, 1, 0, 0, 3 :: int] ! (p * 3 + 2)) [0..<2] = [1, 3]"
    by code_simp
  ultimately show ?thesis using 1 a(1,2) by auto
qed

text \<open>
  Claim C8 as it is written, for every shape, fails on two degenerate shapes: with no
  sample per row the reshape to \<open>(b,)\<close> raises ValueError, and with no element per
  triple \<^verbatim>\<open>np.split\<close> raises ZeroDivisionError.
\<close>

theorem get_triples_from_batch_degenerate:
  "wf_ndarray \<lparr>shape = [2, 0, 3], elems = []\<rparr>
   \<and> get_triples_from_batch \<lparr>shape = [2, 0, 3], elems = []\<rparr> = Inl ValueError
   \<and> wf_ndarray \<lparr>shape = [2, 1, 0], elems = []\<rparr>
   \<and> get_triples_from_batch \<lparr>shape = [2, 1, 0], elems = []\<rparr> = Inl ZeroDivisionError"
  by code_simp

end
